theory Spec2Isabelle
  imports Main "HOL-Library.AList"
begin

section \<open>Values shared by the two routes\<close>

text \<open>
  A spreadsheet row is a JavaScript object from column header to cell value.  It is kept
  as an association list in key order (\<open>Object.keys\<close> enumerates it), read with
  \<open>map_of\<close>.  A cell that is \<open>null\<close> or \<open>undefined\<close> is an absent key: every
  read of a cell in the two routes goes through \<open>??\<close>, which treats both alike.
  A cell that is a string is \<open>CStr\<close>; any other value (a number, a boolean) is
  \<open>COther\<close>, carried with the text that \<open>String(v)\<close> gives for it, so that number
  formatting stays outside the model while \<open>===\<close> against a string still tells the two
  apart.  Characters are bytes: whitespace and letter case are the ASCII ones.
\<close>

datatype cell = CStr string | COther string

type_synonym row = "(string \<times> cell) list"

fun String_of :: "cell \<Rightarrow> string" where
  "String_of (CStr s) = s"
| "String_of (COther s) = s"

text \<open>\<open>String(v ?? '')\<close>.\<close>

definition String_or_empty :: "cell option \<Rightarrow> string" where
  "String_or_empty v = (case v of None \<Rightarrow> [] | Some c \<Rightarrow> String_of c)"

text \<open>\<open>v ?? ''\<close>.\<close>

definition or_empty :: "cell option \<Rightarrow> cell" where
  "or_empty v = (case v of None \<Rightarrow> CStr [] | Some c \<Rightarrow> c)"

definition Object_keys :: "row \<Rightarrow> string list" where
  "Object_keys r = map fst r"

text \<open>The decimal text of a natural number, as a template literal prints an index.\<close>

fun string_of_nat :: "nat \<Rightarrow> string" where
  "string_of_nat n =
     (if n < 10 then [char_of (48 + n)]
      else string_of_nat (n div 10) @ [char_of (48 + n mod 10)])"

declare string_of_nat.simps [simp del]

text \<open>\<open>xs.join(sep)\<close>.\<close>

fun join :: "string \<Rightarrow> string list \<Rightarrow> string" where
  "join sep [] = []"
| "join sep [x] = x"
| "join sep (x # y # ys) = x @ sep @ join sep (y # ys)"

text \<open>\<open>s.trim().toLowerCase().replace(/\s+/g, '_')\<close>, on ASCII.\<close>

definition is_space :: "char \<Rightarrow> bool" where
  "is_space c = (c \<in> set [CHR '' '', CHR 0x09, CHR 0x0A, CHR 0x0B, CHR 0x0C, CHR 0x0D])"

definition trim :: "string \<Rightarrow> string" where
  "trim s = rev (dropWhile is_space (rev (dropWhile is_space s)))"

definition lower_char :: "char \<Rightarrow> char" where
  "lower_char c = (let n = (of_char c :: nat) in if 65 \<le> n \<and> n \<le> 90 then char_of (n + 32) else c)"

definition toLowerCase :: "string \<Rightarrow> string" where
  "toLowerCase s = map lower_char s"

function replace_spaces :: "string \<Rightarrow> string" where
  "replace_spaces [] = []"
| "replace_spaces (c # cs) =
     (if is_space c then CHR ''_'' # replace_spaces (dropWhile is_space cs)
      else c # replace_spaces cs)"
  by pat_completeness auto
termination
  by (relation "measure length") (auto simp: length_dropWhile_le less_Suc_eq_le)

definition normalizeText :: "string \<Rightarrow> string" where
  "normalizeText s = replace_spaces (toLowerCase (trim s))"

section \<open>The analyze route: mapping inference and its validation\<close>

definition GENERATED_ID_HEADER :: string where
  "GENERATED_ID_HEADER = ''__generated_row_id__''"

record questionHeader =
  header :: string
  isCategorical :: bool

text \<open>The mapping as the process route receives it, its identifier never null; then the
  mapping as the model proposes it in the analyze route.\<close>

record ConfirmedMapping =
  studentIdHeader :: string
  questionHeaders :: "questionHeader list"

record proposedMapping =
  studentIdHeader :: "string option"
  questionHeaders :: "questionHeader list"

record env =
  SUPABASE_URL :: "string option"
  SUPABASE_ANON_KEY :: "string option"
  USE_MOCK_LLM :: "string option"

text \<open>A variable of the environment that is unset or empty is falsy.\<close>

definition falsy :: "string option \<Rightarrow> bool" where
  "falsy v = (case v of None \<Rightarrow> True | Some s \<Rightarrow> s = [])"

text \<open>The route answers with a status and a message, or with the mapping and the rows.\<close>

datatype analyze_error = Status400 string | Status500 string

definition getSupabaseCredentials_analyze :: "env \<Rightarrow> string + unit" where
  "getSupabaseCredentials_analyze e =
     (if falsy (SUPABASE_URL e) then Inl ''Missing environment variable: SUPABASE_URL''
      else if falsy (SUPABASE_ANON_KEY e) then Inl ''Missing environment variable: SUPABASE_ANON_KEY''
      else Inr ())"

text \<open>What the call of \<open>generateObject\<close> for the mapping does: it throws, or returns an object.\<close>

datatype mapping_outcome = MappingThrows string | MappingObject proposedMapping

text \<open>
  Lines 131 to 157: the identifier the model proposed is kept when it is a real header;
  otherwise the generated header takes its place, every row gets its label under it and
  the headers are read again from the first row.  The result is the resolved identifier,
  the flag \<open>studentIdHeaderIsGenerated\<close>, the mapping, the rows and the headers.
\<close>

definition generateFallback ::
  "row list \<Rightarrow> proposedMapping \<Rightarrow> string \<times> bool \<times> proposedMapping \<times> row list \<times> string list" where
  "generateFallback rows pm =
     (let sid = GENERATED_ID_HEADER;
          pm' = pm\<lparr>studentIdHeader := Some sid\<rparr>;
          rows' = map (\<lambda>(index, r). AList.update sid (CStr (''Row '' @ string_of_nat (index + 1))) r)
                      (enumerate 0 rows);
          allHeaders' = Object_keys (hd rows')
      in (sid, True, pm', rows', allHeaders'))"

definition resolveStudentId ::
  "string list \<Rightarrow> row list \<Rightarrow> proposedMapping \<Rightarrow> string \<times> bool \<times> proposedMapping \<times> row list \<times> string list" where
  "resolveStudentId allHeaders rows pm =
     (case studentIdHeader pm of
        None \<Rightarrow> generateFallback rows pm
      | Some s \<Rightarrow> if s \<notin> set allHeaders then generateFallback rows pm
                  else (s, False, pm, rows, allHeaders))"

definition invalidHeadersMessage :: "string list \<Rightarrow> string list \<Rightarrow> string" where
  "invalidHeadersMessage invalidQuestionHeaders allHeaders =
     ''LLM proposed questionHeaders contain invalid headers not found in the sheet (or generated ID): ''
     @ join '', '' invalidQuestionHeaders @ ''. Actual headers: '' @ join '', '' allHeaders"

text \<open>
  Lines 159 to 187: the question headers are checked against the headers, then the
  identifier is removed from them.  The local \<open>questionHeaders\<close> and the field of
  \<open>proposedMapping\<close> are two variables in the source and are kept apart here.
\<close>

definition validateQuestionHeaders ::
  "string \<times> bool \<times> proposedMapping \<times> row list \<times> string list \<Rightarrow> string + (proposedMapping \<times> row list)" where
  "validateQuestionHeaders st =
     (case st of (sid, isGenerated, pm, rows, allHeaders) \<Rightarrow>
        let qhs = questionHeaders pm;
            allQuestionHeaderStrings = map header qhs;
            invalidQuestionHeaders = filter (\<lambda>h. h \<notin> set allHeaders) allQuestionHeaderStrings
        in if length invalidQuestionHeaders > 0 then
             (if isGenerated \<and> length invalidQuestionHeaders = 1 \<and> hd invalidQuestionHeaders = sid then
                (let pm1 = pm\<lparr>questionHeaders := filter (\<lambda>qh. header qh \<noteq> sid) qhs\<rparr>;
                     qhs1 = questionHeaders pm1
                 in if list_ex (\<lambda>qh. header qh = sid) qhs1
                    then Inr (pm1\<lparr>questionHeaders := filter (\<lambda>qh. header qh \<noteq> sid) qhs1\<rparr>, rows)
                    else Inr (pm1, rows))
              else Inl (invalidHeadersMessage invalidQuestionHeaders allHeaders))
           else if list_ex (\<lambda>qh. header qh = sid) qhs
                then Inr (pm\<lparr>questionHeaders := filter (\<lambda>qh. header qh \<noteq> sid) qhs\<rparr>, rows)
                else Inr (pm, rows))"

text \<open>
  The route from the parsed rows on (the upload and the parsing of the workbook are the
  ingestor's): credentials, the empty sheet, the call of the model, the validation.  An
  exception anywhere is caught at line 189 and answered with status 500.
\<close>

definition analyze_POST :: "env \<Rightarrow> row list \<Rightarrow> mapping_outcome \<Rightarrow> analyze_error + (proposedMapping \<times> row list)" where
  "analyze_POST e rows outcome =
     (case getSupabaseCredentials_analyze e of
        Inl msg \<Rightarrow> Inl (Status500 msg)
      | Inr _ \<Rightarrow>
          if rows = [] then Inl (Status400 ''Spreadsheet is empty or the first sheet has no data.'')
          else (case outcome of
                  MappingThrows msg \<Rightarrow> Inl (Status500 msg)
                | MappingObject pm \<Rightarrow>
                    (case validateQuestionHeaders (resolveStudentId (Object_keys (hd rows)) rows pm) of
                       Inl msg \<Rightarrow> Inl (Status500 msg)
                     | Inr res \<Rightarrow> Inr res)))"

section \<open>The process route: batched categorization, statistics, stream\<close>

definition BATCH_SIZE :: nat where
  "BATCH_SIZE = 50"

definition SUB_CATEGORY_DEFAULT :: string where
  "SUB_CATEGORY_DEFAULT = ''detail_na''"

text \<open>What the model returns for one answer and for one respondent (the two zod schemas).\<close>

record categorizedAnswer =
  question :: string
  topic :: string
  sentiment :: string
  sub_category :: "string option"

record categorizedStudent =
  respondentId :: string
  categorizations :: "categorizedAnswer list"

text \<open>The object pushed on \<open>allRunCategorizations\<close>: one record of the ledger.\<close>

record categorization =
  run_id :: string
  student_identifier :: cell
  question_text :: string
  original_answer :: cell
  topic :: string
  sentiment :: string
  sub_category :: "string option"

text \<open>\<open>RunStats\<close>: question to combined category to count, in insertion order.  Headers
  and keys are taken to be ordinary property names: not the names \<open>Object.prototype\<close>
  already answers to, and not texts of integers, which JavaScript enumerates first.\<close>

type_synonym QuestionStats = "(string \<times> nat) list"
type_synonym RunStats = "(string \<times> QuestionStats) list"

datatype StreamMessage =
    BatchStart nat nat
  | Result categorizedStudent
  | Stats RunStats
  | Summary string
  | Error string "nat option"
  | Complete string

fun isBatchStart :: "StreamMessage \<Rightarrow> bool" where
  "isBatchStart (BatchStart n m) = True"
| "isBatchStart message = False"

fun isResult :: "StreamMessage \<Rightarrow> bool" where
  "isResult (Result r) = True"
| "isResult message = False"

fun isSummary :: "StreamMessage \<Rightarrow> bool" where
  "isSummary (Summary t) = True"
| "isSummary message = False"

text \<open>
  The collaborators.  A call either returns or throws; what is thrown is an \<open>Error\<close>
  with its message, or some other value (\<open>None\<close>).  \<open>generateObject\<close> is asked once
  per batch at most, and what an outside model answers to a prompt is not for this theory
  to say: its outcome is given per batch number.  \<open>randomHex\<close> is the text
  \<open>Math.random().toString(16).slice(2, 8)\<close> of the mock, per batch and position.
  \<open>generateText\<close> and \<open>upsert\<close> are called once in a run.
\<close>

datatype llm_outcome = LlmThrows "string option" | LlmNull | LlmObject "categorizedStudent list"

datatype text_outcome = TextThrows "string option" | TextOk string

datatype upsert_outcome = UpsertOk | UpsertError string | UpsertThrows "string option"

record externals =
  generateObject :: "nat \<Rightarrow> llm_outcome"
  randomHex :: "nat \<Rightarrow> nat \<Rightarrow> string"
  generateText :: text_outcome
  upsert :: upsert_outcome

text \<open>The state of the stream body: what was sent, the ledger, the two context sets (a
  JavaScript \<open>Set\<close> keeps insertion order), and the batches for which the classification
  capability was called.  Sending is taken to succeed: the consumer stays connected, so
  that \<open>controller.enqueue\<close> does not throw.\<close>

record run_state =
  sent :: "StreamMessage list"
  allRunCategorizations :: "categorization list"
  identifiedTopics :: "string list"
  identifiedSubCategories :: "string list"
  capabilityCalls :: "nat list"

definition sendStreamMessage :: "StreamMessage \<Rightarrow> run_state \<Rightarrow> run_state" where
  "sendStreamMessage message st = st\<lparr>sent := sent st @ [message]\<rparr>"

definition Set_add :: "string \<Rightarrow> string list \<Rightarrow> string list" where
  "Set_add x xs = (if x \<in> set xs then xs else xs @ [x])"

definition getSupabaseCredentials_process :: "env \<Rightarrow> string + unit" where
  "getSupabaseCredentials_process e =
     (if falsy (SUPABASE_URL e) \<or> falsy (SUPABASE_ANON_KEY e)
      then Inl ''Missing Supabase environment variables'' else Inr ())"

definition useMockLlm :: "env \<Rightarrow> bool" where
  "useMockLlm e = (USE_MOCK_LLM e = Some ''true'')"

subsection \<open>The mock of the classification capability\<close>

definition not_line_end :: "char \<Rightarrow> bool" where
  "not_line_end c = (c \<noteq> CHR 0x0A \<and> c \<noteq> CHR 0x0D)"

text \<open>\<open>prompt.match(/Respondent ID: (.*)/g)\<close>, each match without its tag.\<close>

function respondentIdMatches :: "string \<Rightarrow> string list" where
  "respondentIdMatches [] = []"
| "respondentIdMatches (c # cs) =
     (if take 15 (c # cs) = ''Respondent ID: ''
      then takeWhile not_line_end (drop 15 (c # cs))
           # respondentIdMatches (dropWhile not_line_end (drop 15 (c # cs)))
      else respondentIdMatches cs)"
  by pat_completeness auto
termination
  by (relation "measure length")
     (auto intro!: le_imp_less_Suc order_trans [OF length_dropWhile_le])

definition mockAnalyzeFeedbackBatch :: "(nat \<Rightarrow> string) \<Rightarrow> string \<Rightarrow> categorizedStudent list" where
  "mockAnalyzeFeedbackBatch random prompt =
     map (\<lambda>(n, s). let id = trim s in
            \<lparr>respondentId = (if id = [] then ''MockRespondent_'' @ random n else id),
             categorizations =
               [\<lparr>question = ''Mock Question 1'', categorizedAnswer.topic = ''mock_topic_1'',
                 categorizedAnswer.sentiment = ''positive'', categorizedAnswer.sub_category = None\<rparr>,
                \<lparr>question = ''Mock Question 2'', categorizedAnswer.topic = ''mock_topic_2'',
                 categorizedAnswer.sentiment = ''neutral'', categorizedAnswer.sub_category = None\<rparr>]\<rparr>)
         (enumerate 0 (respondentIdMatches prompt))"

subsection \<open>The categorical pass (lines 163 to 183)\<close>

text \<open>\<open>row[studentIdHeader] ?? `Row ${i + index + 1} (No ID)`\<close>.\<close>

definition respondentIdOf :: "string \<Rightarrow> nat \<Rightarrow> nat \<Rightarrow> row \<Rightarrow> cell" where
  "respondentIdOf sid i index r =
     (case map_of r sid of
        Some c \<Rightarrow> c
      | None \<Rightarrow> CStr (''Row '' @ string_of_nat (i + index + 1) @ '' (No ID)''))"

definition categoricalEntry :: "string \<Rightarrow> cell \<Rightarrow> row \<Rightarrow> questionHeader \<Rightarrow> categorization" where
  "categoricalEntry runId rid r qInfo =
     (let question = header qInfo;
          answer = map_of r question;
          normalized = normalizeText (String_or_empty answer);
          normalizedAnswer = (if normalized = [] then SUB_CATEGORY_DEFAULT else normalized);
          topic = normalizeText question
      in \<lparr>run_id = runId, student_identifier = rid, question_text = question,
          original_answer = CStr (String_or_empty answer), topic = topic,
          sentiment = ''n/a'', sub_category = Some normalizedAnswer\<rparr>)"

definition categoricalPass ::
  "string \<Rightarrow> string \<Rightarrow> questionHeader list \<Rightarrow> nat \<Rightarrow> row list \<Rightarrow> categorization list" where
  "categoricalPass runId sid categoricalQuestions i batch =
     concat (map (\<lambda>(index, r).
                    map (categoricalEntry runId (respondentIdOf sid i index r) r) categoricalQuestions)
                 (enumerate 0 batch))"

subsection \<open>The prompt of the qualitative pass (lines 186 to 232)\<close>

definition nonBlank :: "cell \<Rightarrow> bool" where
  "nonBlank a = (trim (String_of a) \<noteq> [])"

definition answersOf :: "questionHeader list \<Rightarrow> row \<Rightarrow> (string \<times> cell) list" where
  "answersOf qualitativeQuestions r =
     map (\<lambda>qInfo. (header qInfo, or_empty (map_of r (header qInfo)))) qualitativeQuestions"

definition hasAnswer :: "(string \<times> cell) list \<Rightarrow> bool" where
  "hasAnswer answers = list_ex (\<lambda>a. nonBlank (snd a)) answers"

definition batchInputForPrompt ::
  "string \<Rightarrow> questionHeader list \<Rightarrow> nat \<Rightarrow> row list \<Rightarrow> (cell \<times> (string \<times> cell) list) list" where
  "batchInputForPrompt sid qualitativeQuestions i batch =
     map (\<lambda>(index, r). (respondentIdOf sid i index r, answersOf qualitativeQuestions r))
         (enumerate 0 batch)"

definition qualitativeDataExistsInBatch :: "(cell \<times> (string \<times> cell) list) list \<Rightarrow> bool" where
  "qualitativeDataExistsInBatch input = list_ex (\<lambda>item. hasAnswer (snd item)) input"

definition promptIntro :: string where
  "promptIntro =
     ''You are analyzing feedback. For each respondent listed below, analyze ONLY their answers to the provided QUALITATIVE questions. ''
     @ ''For each answer, identify the **main topic**, the **sentiment** expressed ('positive', 'negative', 'neutral', 'n/a'), ''
     @ ''and optionally, a **professional and concise sub_category** summarizing the specific REASON for the sentiment (e.g., 'schedule_conflict', 'instructor_clarity', 'difficult_navigation', 'helpful_support_staff'). Sub-category titles should sound like formal report points. **CRITICAL: Before creating a NEW sub_category, check if any existing sub_category under the SAME topic and sentiment (see list below, if provided) accurately represents the feedback's core reason. Strongly prefer reusing an existing sub-category if the meaning is similar.** Only create a new sub-category if the reason is genuinely distinct and cannot be captured by existing ones. Only include sub_category if a specific reason is clearly stated or implied. ''
     @ ''Respond *only* with a JSON array matching the schema.\<newline>''"

definition contextHint :: "nat \<Rightarrow> string list \<Rightarrow> string list \<Rightarrow> string" where
  "contextHint batchNumber topics subCategories =
     (if batchNumber > 1 \<and> length topics > 0
      then ''\<newline>Previously identified topics: ['' @ join '', '' (take 30 topics)
           @ '']. Reuse these if appropriate.''
      else [])
     @ (if batchNumber > 1 \<and> length subCategories > 0
        then ''\<newline>Previously identified sub-categories: ['' @ join '', '' (take 50 subCategories)
             @ '']. Reuse these specific reasons if appropriate.''
        else [])"

definition respondentBlock :: "cell \<times> (string \<times> cell) list \<Rightarrow> string" where
  "respondentBlock item =
     (if hasAnswer (snd item)
      then ''\<newline>Respondent ID: '' @ String_of (fst item) @ ''\<newline>''
           @ concat (map (\<lambda>qa. ''  Question: '' @ fst qa @ ''\<newline>  Answer: '' @ String_of (snd qa) @ ''\<newline>'')
                         (snd item))
           @ ''---\<newline>''
      else [])"

definition batchPrompt ::
  "nat \<Rightarrow> string list \<Rightarrow> string list \<Rightarrow> (cell \<times> (string \<times> cell) list) list \<Rightarrow> string" where
  "batchPrompt batchNumber topics subCategories input =
     promptIntro @ contextHint batchNumber topics subCategories
     @ ''\<newline>\<newline>Input Data (Qualitative Only):\<newline>''
     @ concat (map respondentBlock input)"

subsection \<open>Normalization of what the model returned (lines 256 to 274)\<close>

definition normalizeCategorization :: "categorizedAnswer \<Rightarrow> categorizedAnswer" where
  "normalizeCategorization cat =
     (let t = normalizeText (categorizedAnswer.topic cat);
          normalizedTopic = (if t = [] then ''n/a'' else t);
          normalizedSentiment =
            (if categorizedAnswer.sentiment cat = [] then ''neutral'' else categorizedAnswer.sentiment cat);
          normalizedSubCategory =
            (case categorizedAnswer.sub_category cat of
               None \<Rightarrow> None
             | Some sc \<Rightarrow> (let n = normalizeText sc in if n = [] then None else Some n))
      in cat\<lparr>categorizedAnswer.topic := normalizedTopic,
             categorizedAnswer.sentiment := normalizedSentiment,
             categorizedAnswer.sub_category := normalizedSubCategory\<rparr>)"

definition normalizeStudent :: "categorizedStudent \<Rightarrow> categorizedStudent" where
  "normalizeStudent studentResult =
     studentResult\<lparr>categorizations := map normalizeCategorization (categorizations studentResult)\<rparr>"

text \<open>The two \<open>add\<close> of one categorization, already normalized, on the context sets.\<close>

definition addToContext :: "categorizedAnswer \<Rightarrow> string list \<times> string list \<Rightarrow> string list \<times> string list" where
  "addToContext cat ctx =
     (let topics = (if categorizedAnswer.topic cat \<noteq> ''n/a''
                    then Set_add (categorizedAnswer.topic cat) (fst ctx) else fst ctx);
          subs = (case categorizedAnswer.sub_category cat of
                    None \<Rightarrow> snd ctx
                  | Some sc \<Rightarrow> if sc \<noteq> [] then Set_add sc (snd ctx) else snd ctx)
      in (topics, subs))"

definition updateContext :: "categorizedStudent list \<Rightarrow> string list \<times> string list \<Rightarrow> string list \<times> string list" where
  "updateContext normalized ctx = fold addToContext (concat (map categorizations normalized)) ctx"

subsection \<open>Accumulating the results of the model (lines 278 to 305)\<close>

definition findOriginalRow :: "string \<Rightarrow> nat \<Rightarrow> row list \<Rightarrow> string \<Rightarrow> row option" where
  "findOriginalRow sid i batch rid =
     map_option snd (find (\<lambda>(index, r). respondentIdOf sid i index r = CStr rid) (enumerate 0 batch))"

definition qualitativeEntries ::
  "string \<Rightarrow> questionHeader list \<Rightarrow> row \<Rightarrow> categorizedStudent \<Rightarrow> categorization list" where
  "qualitativeEntries runId qualitativeQuestions originalRow respondentResult =
     map (\<lambda>c. \<lparr>run_id = runId, student_identifier = CStr (respondentId respondentResult),
                question_text = question c,
                original_answer = or_empty (map_of originalRow (question c)),
                topic = categorizedAnswer.topic c, sentiment = categorizedAnswer.sentiment c,
                sub_category = categorizedAnswer.sub_category c\<rparr>)
         (filter (\<lambda>c. list_ex (\<lambda>q. header q = question c) qualitativeQuestions)
                 (categorizations respondentResult))"

definition accumulateOne ::
  "string \<Rightarrow> string \<Rightarrow> questionHeader list \<Rightarrow> nat \<Rightarrow> row list \<Rightarrow> categorizedStudent \<Rightarrow> run_state \<Rightarrow> run_state" where
  "accumulateOne runId sid qualitativeQuestions i batch respondentResult st =
     (let st1 = sendStreamMessage (Result respondentResult) st
      in case findOriginalRow sid i batch (respondentId respondentResult) of
           Some originalRow \<Rightarrow>
             st1\<lparr>allRunCategorizations := allRunCategorizations st1
                    @ qualitativeEntries runId qualitativeQuestions originalRow respondentResult\<rparr>
         | None \<Rightarrow> st1)"

definition accumulate ::
  "string \<Rightarrow> string \<Rightarrow> questionHeader list \<Rightarrow> nat \<Rightarrow> row list \<Rightarrow> categorizedStudent list \<Rightarrow> run_state \<Rightarrow> run_state" where
  "accumulate runId sid qualitativeQuestions i batch batchResultObject st =
     fold (accumulateOne runId sid qualitativeQuestions i batch) batchResultObject st"

subsection \<open>One batch, and the loop over the batches (lines 152 to 319)\<close>

definition thrownMessage :: "string option \<Rightarrow> string \<Rightarrow> string" where
  "thrownMessage thrown unknown = (case thrown of Some message \<Rightarrow> message | None \<Rightarrow> unknown)"

definition batchError :: "nat \<Rightarrow> string \<Rightarrow> StreamMessage" where
  "batchError batchNumber message =
     Error (''Processing error in batch '' @ string_of_nat batchNumber @ '': '' @ message) (Some batchNumber)"

definition callCapability :: "env \<Rightarrow> externals \<Rightarrow> nat \<Rightarrow> string \<Rightarrow> llm_outcome" where
  "callCapability e ext batchNumber prompt =
     (if useMockLlm e then LlmObject (mockAnalyzeFeedbackBatch (randomHex ext batchNumber) prompt)
      else generateObject ext batchNumber)"

definition qualitativePass ::
  "env \<Rightarrow> externals \<Rightarrow> string \<Rightarrow> string \<Rightarrow> questionHeader list \<Rightarrow> nat \<Rightarrow> row list \<Rightarrow> nat
     \<Rightarrow> (cell \<times> (string \<times> cell) list) list \<Rightarrow> run_state \<Rightarrow> run_state" where
  "qualitativePass e ext runId sid qualitativeQuestions i batch batchNumber input st =
     (let prompt = batchPrompt batchNumber (identifiedTopics st) (identifiedSubCategories st) input;
          st1 = st\<lparr>capabilityCalls := capabilityCalls st @ [batchNumber]\<rparr>
      in case callCapability e ext batchNumber prompt of
           LlmThrows thrown \<Rightarrow>
             sendStreamMessage (batchError batchNumber (thrownMessage thrown ''Unknown LLM/Processing error'')) st1
         | LlmNull \<Rightarrow>
             sendStreamMessage
               (batchError batchNumber ''LLM returned null or invalid object for qualitative data.'') st1
         | LlmObject batchResultObject \<Rightarrow>
             (let normalized = map normalizeStudent batchResultObject;
                  ctx = updateContext normalized (identifiedTopics st1, identifiedSubCategories st1);
                  st2 = st1\<lparr>identifiedTopics := fst ctx, identifiedSubCategories := snd ctx\<rparr>
              in accumulate runId sid qualitativeQuestions i batch normalized st2))"

definition totalBatches :: "row list \<Rightarrow> nat" where
  "totalBatches rows = (length rows + BATCH_SIZE - 1) div BATCH_SIZE"

definition processBatch ::
  "env \<Rightarrow> externals \<Rightarrow> string \<Rightarrow> string \<Rightarrow> questionHeader list \<Rightarrow> row list \<Rightarrow> nat \<Rightarrow> run_state \<Rightarrow> run_state" where
  "processBatch e ext runId sid qhs rows i st =
     (let batch = take BATCH_SIZE (drop i rows);
          batchNumber = i div BATCH_SIZE + 1;
          st1 = sendStreamMessage (BatchStart batchNumber (totalBatches rows)) st;
          qualitativeQuestions = filter (\<lambda>q. \<not> isCategorical q) qhs;
          categoricalQuestions = filter (\<lambda>q. isCategorical q) qhs;
          st2 = st1\<lparr>allRunCategorizations := allRunCategorizations st1
                       @ categoricalPass runId sid categoricalQuestions i batch\<rparr>;
          input = batchInputForPrompt sid qualitativeQuestions i batch
      in if length qualitativeQuestions > 0 \<and> qualitativeDataExistsInBatch input
         then qualitativePass e ext runId sid qualitativeQuestions i batch batchNumber input st2
         else st2)"

function batchLoop ::
  "env \<Rightarrow> externals \<Rightarrow> string \<Rightarrow> string \<Rightarrow> questionHeader list \<Rightarrow> row list \<Rightarrow> nat \<Rightarrow> run_state \<Rightarrow> run_state" where
  "batchLoop e ext runId sid qhs rows i st =
     (if i < length rows
      then batchLoop e ext runId sid qhs rows (i + BATCH_SIZE) (processBatch e ext runId sid qhs rows i st)
      else st)"
  by pat_completeness auto
termination
  by (relation "measure (\<lambda>(e, ext, runId, sid, qhs, rows, i, st). length rows - i)")
     (auto simp: BATCH_SIZE_def)

declare batchLoop.simps [simp del]

subsection \<open>Statistics, summary, persistence, completion (lines 321 to 431)\<close>

definition combinedCategoryOf :: "categorization \<Rightarrow> string" where
  "combinedCategoryOf record =
     (let subCategoryKey = (case sub_category record of
                              None \<Rightarrow> SUB_CATEGORY_DEFAULT
                            | Some sc \<Rightarrow> if sc = [] then SUB_CATEGORY_DEFAULT else sc)
      in topic record @ ''_'' @ sentiment record @ ''_'' @ subCategoryKey)"

definition countUp :: "QuestionStats \<Rightarrow> string \<Rightarrow> QuestionStats" where
  "countUp qs combinedCategory =
     AList.update combinedCategory ((case map_of qs combinedCategory of None \<Rightarrow> 0 | Some n \<Rightarrow> n) + 1) qs"

definition statsStep :: "RunStats \<Rightarrow> categorization \<Rightarrow> RunStats" where
  "statsStep acc record =
     (if question_text record = [] \<or> topic record = [] \<or> sentiment record = [] then acc
      else let qs = (case map_of acc (question_text record) of None \<Rightarrow> [] | Some m \<Rightarrow> m)
           in AList.update (question_text record) (countUp qs (combinedCategoryOf record)) acc)"

definition calculateStats :: "categorization list \<Rightarrow> RunStats" where
  "calculateStats ledger = foldl statsStep [] ledger"

definition defaultSummary :: string where
  "defaultSummary = ''AI summary could not be generated.''"

definition mockSummary :: string where
  "mockSummary = ''Mock Summary: Feedback shows mixed results with some positive comments about X and negative comments about Y.''"

definition summarize :: "env \<Rightarrow> externals \<Rightarrow> RunStats \<Rightarrow> run_state \<Rightarrow> string \<times> run_state" where
  "summarize e ext runStats st =
     (if length runStats > 0 \<and> \<not> useMockLlm e then
        (case generateText ext of
           TextOk text \<Rightarrow> (text, sendStreamMessage (Summary text) st)
         | TextThrows thrown \<Rightarrow>
             (defaultSummary,
              sendStreamMessage
                (Error (''Failed to generate AI summary: '' @ thrownMessage thrown ''Unknown error generating summary'') None)
                st))
      else if useMockLlm e then (mockSummary, sendStreamMessage (Summary mockSummary) st)
      else (defaultSummary, sendStreamMessage (Summary defaultSummary) st))"

definition saveFinalResults :: "externals \<Rightarrow> run_state \<Rightarrow> run_state" where
  "saveFinalResults ext st =
     (case upsert ext of
        UpsertOk \<Rightarrow> st
      | UpsertError message \<Rightarrow>
          sendStreamMessage
            (Error (''Failed to save final results: ''
                    @ ''Failed to save/update final run results in processing_runs: ''
                    @ (if message = [] then ''No error message provided by Supabase (check server logs)'' else message))
                   None) st
      | UpsertThrows thrown \<Rightarrow>
          sendStreamMessage
            (Error (''Failed to save final results: '' @ thrownMessage thrown ''Unknown error saving final results'') None)
            st)"

text \<open>What a run leaves: the stream, the payload handed to the store (ledger, statistics,
  summary) when the run got that far, and the batches the capability was called for.\<close>

record run_result =
  stream :: "StreamMessage list"
  finalRunData :: "(categorization list \<times> RunStats \<times> string) option"
  calls :: "nat list"

definition finish :: "env \<Rightarrow> externals \<Rightarrow> row list \<Rightarrow> run_state \<Rightarrow> run_result" where
  "finish e ext rows st =
     (let runStats = calculateStats (allRunCategorizations st);
          st1 = sendStreamMessage (Stats runStats) st;
          (summaryText, st2) = summarize e ext runStats st1;
          st3 = saveFinalResults ext st2;
          st4 = sendStreamMessage
                  (Complete (''Processing and statistics finished for '' @ string_of_nat (length rows) @ '' rows.''))
                  st3
      in \<lparr>stream = sent st4,
          finalRunData = Some (allRunCategorizations st, runStats, summaryText),
          calls = capabilityCalls st4\<rparr>)"

definition initial :: run_state where
  "initial = \<lparr>sent = [], allRunCategorizations = [], identifiedTopics = [],
              identifiedSubCategories = [], capabilityCalls = []\<rparr>"

text \<open>The body of the stream, \<open>start(controller)\<close>.  The outer \<open>catch\<close> at line 433 is
  reached from the set-up only: every later step that can throw has its own handler.\<close>

definition start :: "env \<Rightarrow> externals \<Rightarrow> string \<Rightarrow> string \<Rightarrow> questionHeader list \<Rightarrow> row list \<Rightarrow> run_result" where
  "start e ext runId sid qhs rows =
     (case getSupabaseCredentials_process e of
        Inl message \<Rightarrow> \<lparr>stream = [Error (''Server error: '' @ message) None], finalRunData = None, calls = []\<rparr>
      | Inr _ \<Rightarrow> finish e ext rows (batchLoop e ext runId sid qhs rows 0 initial))"

text \<open>The request of the route, its body parsed, and its check at line 124: a field that
  is missing is \<open>None\<close>, and every row is an object.\<close>

record process_request =
  req_runId :: "string option"
  req_confirmedMapping :: "ConfirmedMapping option"
  req_rows :: "row list option"

definition process_POST :: "env \<Rightarrow> externals \<Rightarrow> process_request \<Rightarrow> string + run_result" where
  "process_POST e ext req =
     (case (req_runId req, req_confirmedMapping req, req_rows req) of
        (Some rid, Some cm, Some rs) \<Rightarrow>
          if rid = [] \<or> ConfirmedMapping.studentIdHeader cm = [] \<or> ConfirmedMapping.questionHeaders cm = []
          then Inl ''Invalid request payload''
          else Inr (start e ext rid (ConfirmedMapping.studentIdHeader cm) (ConfirmedMapping.questionHeaders cm) rs)
      | _ \<Rightarrow> Inl ''Invalid request payload'')"

section \<open>Notions used to state the properties\<close>

text \<open>The condition of line 203, for the batch that starts at row \<open>i\<close>: it reads the
  mapping and the rows only.\<close>

definition callsCapability :: "string \<Rightarrow> questionHeader list \<Rightarrow> row list \<Rightarrow> nat \<Rightarrow> bool" where
  "callsCapability sid qhs rws i =
     (let batch = take BATCH_SIZE (drop i rws);
          qualitativeQuestions = filter (\<lambda>q. \<not> isCategorical q) qhs
      in length qualitativeQuestions > 0
         \<and> qualitativeDataExistsInBatch (batchInputForPrompt sid qualitativeQuestions i batch))"

text \<open>What the capability answers for the batch that starts at row \<open>i\<close>, reached in state
  \<open>st\<close>; \<open>None\<close> when the call is skipped.\<close>

definition qualitativeOutcome ::
  "env \<Rightarrow> externals \<Rightarrow> string \<Rightarrow> questionHeader list \<Rightarrow> row list \<Rightarrow> nat \<Rightarrow> run_state \<Rightarrow> llm_outcome option" where
  "qualitativeOutcome e ext sid qhs rws i st =
     (let batch = take BATCH_SIZE (drop i rws);
          qualitativeQuestions = filter (\<lambda>q. \<not> isCategorical q) qhs;
          input = batchInputForPrompt sid qualitativeQuestions i batch
      in if length qualitativeQuestions > 0 \<and> qualitativeDataExistsInBatch input
         then Some (callCapability e ext (i div BATCH_SIZE + 1)
                      (batchPrompt (i div BATCH_SIZE + 1) (identifiedTopics st) (identifiedSubCategories st) input))
         else None)"

text \<open>The records one respondent of the answer adds to the ledger (lines 281 to 304).\<close>

definition entriesFor ::
  "string \<Rightarrow> string \<Rightarrow> questionHeader list \<Rightarrow> nat \<Rightarrow> row list \<Rightarrow> categorizedStudent \<Rightarrow> categorization list" where
  "entriesFor runId sid qualitativeQuestions i batch respondentResult =
     (case findOriginalRow sid i batch (respondentId respondentResult) of
        Some originalRow \<Rightarrow> qualitativeEntries runId qualitativeQuestions originalRow respondentResult
      | None \<Rightarrow> [])"

text \<open>The messages of batch \<open>k\<close> of \<open>n\<close>: its batchStart, then result messages only, or then
  the one error message that carries its index.\<close>

fun batchSegment :: "nat \<Rightarrow> nat \<Rightarrow> StreamMessage list \<Rightarrow> bool" where
  "batchSegment k n [] = False"
| "batchSegment k n (m # body) =
     (m = BatchStart k n \<and>
      (list_all isResult body \<or> (case body of [Error text index] \<Rightarrow> index = Some k | _ \<Rightarrow> False)))"

section \<open>Concrete inputs\<close>

definition example_env :: env where
  "example_env = \<lparr>SUPABASE_URL = Some ''https://db.example'', SUPABASE_ANON_KEY = Some ''anon-key'',
                   USE_MOCK_LLM = None\<rparr>"

definition sheet :: "row list" where
  "sheet = [[(''Name'', CStr ''Ann''), (''Feedback'', CStr ''good food'')],
            [(''Name'', CStr ''Bob''), (''Feedback'', CStr ''slow bus'')]]"

definition mapping_with_id_as_question :: proposedMapping where
  "mapping_with_id_as_question =
     \<lparr>studentIdHeader = Some ''Name'',
      questionHeaders = [\<lparr>header = ''Name'', isCategorical = True\<rparr>,
                         \<lparr>header = ''Feedback'', isCategorical = False\<rparr>]\<rparr>"

definition mapping_without_id :: proposedMapping where
  "mapping_without_id =
     \<lparr>studentIdHeader = None,
      questionHeaders = [\<lparr>header = GENERATED_ID_HEADER, isCategorical = True\<rparr>,
                         \<lparr>header = ''Feedback'', isCategorical = False\<rparr>]\<rparr>"

definition mapping_generated :: proposedMapping where
  "mapping_generated =
     \<lparr>studentIdHeader = Some ''__generated_row_id__'',
      questionHeaders = [\<lparr>header = ''Feedback'', isCategorical = False\<rparr>]\<rparr>"

definition labelled_sheet :: "row list" where
  "labelled_sheet =
     [[(''Name'', CStr ''Ann''), (''Feedback'', CStr ''good food''), (''__generated_row_id__'', CStr ''Row 1'')],
      [(''Name'', CStr ''Bob''), (''Feedback'', CStr ''slow bus''), (''__generated_row_id__'', CStr ''Row 2'')]]"


definition survey_row :: row where
  "survey_row = [(''Email'', CStr ''a@x.com''), (''Rating'', CStr ''5''), (''Comments'', CStr ''great staff'')]"

definition survey_questions :: "questionHeader list" where
  "survey_questions = [\<lparr>header = ''Rating'', isCategorical = True\<rparr>,
                       \<lparr>header = ''Comments'', isCategorical = False\<rparr>]"

definition staff_positive :: "categorizedStudent list" where
  "staff_positive =
     [\<lparr>respondentId = ''a@x.com'',
       categorizations = [\<lparr>question = ''Comments'', categorizedAnswer.topic = ''staff'',
                           categorizedAnswer.sentiment = ''positive'',
                           categorizedAnswer.sub_category = None\<rparr>]\<rparr>]"

definition scenario_ext :: externals where
  "scenario_ext = \<lparr>generateObject = (\<lambda>k. LlmObject staff_positive), randomHex = (\<lambda>k n. ''c0ffee''),
                    generateText = TextOk ''Staff is praised.'', upsert = UpsertOk\<rparr>"

definition failing_ext :: externals where
  "failing_ext = \<lparr>generateObject = (\<lambda>k. if k = 2 then LlmThrows (Some ''rate limit'') else LlmObject staff_positive),
                   randomHex = (\<lambda>k n. ''c0ffee''),
                   generateText = TextOk ''Staff is praised.'', upsert = UpsertOk\<rparr>"

definition summary_failing_ext :: externals where
  "summary_failing_ext = \<lparr>generateObject = (\<lambda>k. LlmObject staff_positive), randomHex = (\<lambda>k n. ''c0ffee''),
                    generateText = TextThrows (Some ''timeout''), upsert = UpsertOk\<rparr>"

definition long_sheet :: "row list" where
  "long_sheet = replicate 101 survey_row"


definition scenario_request :: process_request where
  "scenario_request =
     \<lparr>req_runId = Some ''run-1'',
      req_confirmedMapping = Some \<lparr>ConfirmedMapping.studentIdHeader = ''Email'',
                                   ConfirmedMapping.questionHeaders = survey_questions\<rparr>,
      req_rows = Some [survey_row]\<rparr>"

definition na_answer :: "categorizedStudent list" where
  "na_answer =
     [\<lparr>respondentId = ''a@x.com'',
       categorizations = [\<lparr>question = ''Comments'', categorizedAnswer.topic = ''N/A'',
                           categorizedAnswer.sentiment = ''neutral'',
                           categorizedAnswer.sub_category = Some ''  ''\<rparr>]\<rparr>]"

definition na_ext :: externals where
  "na_ext = \<lparr>generateObject = (\<lambda>k. LlmObject na_answer), randomHex = (\<lambda>k n. ''c0ffee''),
              generateText = TextOk ''Nothing stands out.'', upsert = UpsertOk\<rparr>"

definition staff_cat :: categorizedAnswer where
  "staff_cat = \<lparr>question = ''Comments'', categorizedAnswer.topic = ''Staff'',
                 categorizedAnswer.sentiment = ''positive'',
                 categorizedAnswer.sub_category = Some ''Helpful Support Staff''\<rparr>"

definition noisy_answer :: "categorizedStudent list" where
  "noisy_answer =
     [\<lparr>respondentId = ''a@x.com'',
       categorizations = [staff_cat,
                          \<lparr>question = ''Price'', categorizedAnswer.topic = ''cost'',
                           categorizedAnswer.sentiment = ''negative'',
                           categorizedAnswer.sub_category = None\<rparr>]\<rparr>,
      \<lparr>respondentId = ''ghost@x.com'',
       categorizations = [\<lparr>question = ''Comments'', categorizedAnswer.topic = ''food'',
                           categorizedAnswer.sentiment = ''neutral'',
                           categorizedAnswer.sub_category = None\<rparr>]\<rparr>]"

definition noisy_ext :: externals where
  "noisy_ext = \<lparr>generateObject = (\<lambda>k. LlmObject noisy_answer), randomHex = (\<lambda>k n. ''c0ffee''),
                 generateText = TextOk ''Staff is praised.'', upsert = UpsertOk\<rparr>"







section \<open>The analyze route: validation of the mapping\<close>

lemma resolveStudentId_result:
  "resolveStudentId hs rws pm = (sid, g, pm1, rows1, hs1) \<Longrightarrow>
   questionHeaders pm1 = questionHeaders pm \<and> studentIdHeader pm1 = Some sid \<and>
   (if studentIdHeader pm \<in> Some ` set hs
    then \<not> g \<and> rows1 = rws \<and> hs1 = hs \<and> sid \<in> set hs
    else g \<and> sid = GENERATED_ID_HEADER \<and>
         rows1 = map (\<lambda>(index, r). AList.update GENERATED_ID_HEADER
                                        (CStr (''Row '' @ string_of_nat (index + 1))) r)
                     (enumerate 0 rws) \<and>
         hs1 = Object_keys (hd rows1))"
  by (auto simp: resolveStudentId_def generateFallback_def Let_def split: option.splits if_splits)

lemma filter_header_id:
  "\<not> list_ex (\<lambda>qh. header qh = sid) qhs \<Longrightarrow> filter (\<lambda>qh. header qh \<noteq> sid) qhs = qhs"
  by (induction qhs) auto

lemma validateQuestionHeaders_Inr:
  "validateQuestionHeaders (sid, g, pm, rws, hs) = Inr (pm', rws') \<Longrightarrow>
   rws' = rws \<and> studentIdHeader pm' = studentIdHeader pm \<and>
   questionHeaders pm' = filter (\<lambda>qh. header qh \<noteq> sid) (questionHeaders pm)"
  by (auto simp: validateQuestionHeaders_def Let_def filter_header_id split: if_splits)




lemma nth_labelled_rows:
  assumes "n < length rws"
  shows "map (\<lambda>(index, r). AList.update k (f index) r) (enumerate 0 rws) ! n
         = AList.update k (f n) (rws ! n)"
  using assms by (simp add: nth_enumerate_eq)


text \<open>
  Claim C5.  Whenever the analyze route answers with a mapping, the identifier of that
  mapping is set and is the header of no entry of its question headers.
\<close>

theorem studentIdHeader_not_a_question:
  assumes "analyze_POST e rws outcome = Inr (pm', rws')"
  shows "\<exists>sid. studentIdHeader pm' = Some sid \<and> sid \<notin> header ` set (questionHeaders pm')"
proof -
  from assms obtain pm where "outcome = MappingObject pm" and "rws \<noteq> []"
    and v: "validateQuestionHeaders (resolveStudentId (Object_keys (hd rws)) rws pm) = Inr (pm', rws')"
    by (auto simp: analyze_POST_def split: sum.splits if_splits mapping_outcome.splits)
  obtain sid g pm1 rows1 hs1
    where r: "resolveStudentId (Object_keys (hd rws)) rws pm = (sid, g, pm1, rows1, hs1)"
    by (metis prod_cases5)
  from v r have "studentIdHeader pm' = studentIdHeader pm1"
    and "questionHeaders pm' = filter (\<lambda>qh. header qh \<noteq> sid) (questionHeaders pm1)"
    using validateQuestionHeaders_Inr by simp_all
  moreover from r have "studentIdHeader pm1 = Some sid" using resolveStudentId_result by blast
  ultimately show ?thesis by auto
qed

theorem studentIdHeader_not_a_question_witness:
  "analyze_POST example_env sheet (MappingObject mapping_with_id_as_question)
     = Inr (\<lparr>studentIdHeader = Some ''Name'',
              questionHeaders = [\<lparr>header = ''Feedback'', isCategorical = False\<rparr>]\<rparr>, sheet)
   \<and> (\<exists>sid. studentIdHeader \<lparr>studentIdHeader = Some ''Name'',
                 questionHeaders = [\<lparr>header = ''Feedback'', isCategorical = False\<rparr>]\<rparr> = Some sid
            \<and> sid \<notin> header ` set (questionHeaders \<lparr>studentIdHeader = Some ''Name'',
                 questionHeaders = [\<lparr>header = ''Feedback'', isCategorical = False\<rparr>]\<rparr>))"
proof -
  have run: "analyze_POST example_env sheet (MappingObject mapping_with_id_as_question)
     = Inr (\<lparr>studentIdHeader = Some ''Name'',
              questionHeaders = [\<lparr>header = ''Feedback'', isCategorical = False\<rparr>]\<rparr>, sheet)"
    by code_simp
  from studentIdHeader_not_a_question [OF run] run show ?thesis by (rule_tac conjI)
qed

text \<open>
  Claim C6.  When the identifier the model returned is null or is not a header of the
  sheet, and the route answers with a mapping, then the identifier of that mapping is the
  generated header, the rows are as many as before, the row at position n (from 0) reads
  "Row n+1" under the generated header with every other column unchanged, and the
  generated header is the header of no entry of the question headers.
\<close>

theorem fallback_identifier:
  assumes "analyze_POST e rws (MappingObject pm) = Inr (pm', rws')"
    and "studentIdHeader pm \<notin> Some ` set (Object_keys (hd rws))"
  shows "studentIdHeader pm' = Some GENERATED_ID_HEADER \<and>
         length rws' = length rws \<and>
         (\<forall>n < length rws.
            map_of (rws' ! n) GENERATED_ID_HEADER = Some (CStr (''Row '' @ string_of_nat (n + 1))) \<and>
            (\<forall>h. h \<noteq> GENERATED_ID_HEADER \<longrightarrow> map_of (rws' ! n) h = map_of (rws ! n) h)) \<and>
         GENERATED_ID_HEADER \<notin> header ` set (questionHeaders pm')"
proof -
  from assms(1) have "rws \<noteq> []"
    and v: "validateQuestionHeaders (resolveStudentId (Object_keys (hd rws)) rws pm) = Inr (pm', rws')"
    by (auto simp: analyze_POST_def split: sum.splits if_splits)
  obtain sid g pm1 rows1 hs1
    where r: "resolveStudentId (Object_keys (hd rws)) rws pm = (sid, g, pm1, rows1, hs1)"
    by (metis prod_cases5)
  from resolveStudentId_result [OF r] assms(2)
  have sid: "sid = GENERATED_ID_HEADER" and pm1: "studentIdHeader pm1 = Some sid"
    and rows1: "rows1 = map (\<lambda>(index, r). AList.update GENERATED_ID_HEADER
                                              (CStr (''Row '' @ string_of_nat (index + 1))) r)
                           (enumerate 0 rws)"
    by simp_all
  from v r have pm': "studentIdHeader pm' = studentIdHeader pm1" "rws' = rows1"
    and qhs: "questionHeaders pm' = filter (\<lambda>qh. header qh \<noteq> sid) (questionHeaders pm1)"
    using validateQuestionHeaders_Inr by simp_all
  have "map_of (rws' ! n) GENERATED_ID_HEADER = Some (CStr (''Row '' @ string_of_nat (n + 1))) \<and>
        (\<forall>h. h \<noteq> GENERATED_ID_HEADER \<longrightarrow> map_of (rws' ! n) h = map_of (rws ! n) h)"
    if "n < length rws" for n
    unfolding pm'(2) rows1 nth_labelled_rows [OF that] by (simp add: AList.update_conv')
  moreover have "length rws' = length rws" by (simp add: pm'(2) rows1)
  moreover have "GENERATED_ID_HEADER \<notin> header ` set (questionHeaders pm')" using qhs sid by auto
  ultimately show ?thesis using pm' pm1 sid by simp
qed

theorem fallback_identifier_witness:
  "analyze_POST example_env sheet (MappingObject mapping_without_id) = Inr (mapping_generated, labelled_sheet)
   \<and> studentIdHeader mapping_without_id \<notin> Some ` set (Object_keys (hd sheet))
   \<and> studentIdHeader mapping_generated = Some GENERATED_ID_HEADER
   \<and> length labelled_sheet = length sheet
   \<and> map_of (labelled_sheet ! 1) GENERATED_ID_HEADER = Some (CStr (''Row '' @ string_of_nat (1 + 1)))
   \<and> map_of (labelled_sheet ! 1) ''Name'' = map_of (sheet ! 1) ''Name''
   \<and> GENERATED_ID_HEADER \<notin> header ` set (questionHeaders mapping_generated)"
proof -
  have run: "analyze_POST example_env sheet (MappingObject mapping_without_id)
               = Inr (mapping_generated, labelled_sheet)"
    by code_simp
  have invalid: "studentIdHeader mapping_without_id \<notin> Some ` set (Object_keys (hd sheet))"
    by (simp add: mapping_without_id_def)
  have second: "1 < length sheet" by (simp add: sheet_def)
  have other: "''Name'' \<noteq> GENERATED_ID_HEADER" by (simp add: GENERATED_ID_HEADER_def)
  from fallback_identifier [OF run invalid] second other show ?thesis
    using run invalid by blast
qed



section \<open>The process route: the batches, the stream, the ledger\<close>


lemma sendStreamMessage_fields [simp]:
  "sent (sendStreamMessage m st) = sent st @ [m]"
  "allRunCategorizations (sendStreamMessage m st) = allRunCategorizations st"
  "identifiedTopics (sendStreamMessage m st) = identifiedTopics st"
  "identifiedSubCategories (sendStreamMessage m st) = identifiedSubCategories st"
  "capabilityCalls (sendStreamMessage m st) = capabilityCalls st"
  by (simp_all add: sendStreamMessage_def)

lemma accumulateOne_fields [simp]:
  "sent (accumulateOne runId sid qq i batch rr st) = sent st @ [Result rr]"
  "allRunCategorizations (accumulateOne runId sid qq i batch rr st)
     = allRunCategorizations st @ entriesFor runId sid qq i batch rr"
  "identifiedTopics (accumulateOne runId sid qq i batch rr st) = identifiedTopics st"
  "identifiedSubCategories (accumulateOne runId sid qq i batch rr st) = identifiedSubCategories st"
  "capabilityCalls (accumulateOne runId sid qq i batch rr st) = capabilityCalls st"
  by (simp_all add: accumulateOne_def entriesFor_def Let_def split: option.splits)

lemma accumulate_fields [simp]:
  "sent (accumulate runId sid qq i batch res st) = sent st @ map Result res"
  "allRunCategorizations (accumulate runId sid qq i batch res st)
     = allRunCategorizations st @ concat (map (entriesFor runId sid qq i batch) res)"
  "identifiedTopics (accumulate runId sid qq i batch res st) = identifiedTopics st"
  "identifiedSubCategories (accumulate runId sid qq i batch res st) = identifiedSubCategories st"
  "capabilityCalls (accumulate runId sid qq i batch res st) = capabilityCalls st"
  unfolding accumulate_def by (induction res arbitrary: st; simp)+

lemma processBatch_sent:
  "sent (processBatch e ext runId sid qhs rws i st) =
     sent st @ BatchStart (i div BATCH_SIZE + 1) (totalBatches rws) #
       (case qualitativeOutcome e ext sid qhs rws i st of
          None \<Rightarrow> []
        | Some (LlmThrows thrown) \<Rightarrow> [batchError (i div BATCH_SIZE + 1) (thrownMessage thrown ''Unknown LLM/Processing error'')]
        | Some LlmNull \<Rightarrow> [batchError (i div BATCH_SIZE + 1) ''LLM returned null or invalid object for qualitative data.'']
        | Some (LlmObject res) \<Rightarrow> map Result (map normalizeStudent res))"
  by (simp add: processBatch_def qualitativeOutcome_def qualitativePass_def Let_def split: llm_outcome.splits)



lemma processBatch_context:
  "(identifiedTopics (processBatch e ext runId sid qhs rws i st), identifiedSubCategories (processBatch e ext runId sid qhs rws i st)) =
     (case qualitativeOutcome e ext sid qhs rws i st of
        Some (LlmObject res) \<Rightarrow> updateContext (map normalizeStudent res) (identifiedTopics st, identifiedSubCategories st)
      | _ \<Rightarrow> (identifiedTopics st, identifiedSubCategories st))"
  by (simp add: processBatch_def qualitativeOutcome_def qualitativePass_def Let_def split: llm_outcome.splits)

lemma more_batches: "k * BATCH_SIZE < length rws \<longleftrightarrow> k < totalBatches rws"
  by (simp add: totalBatches_def BATCH_SIZE_def) arith

lemma batchLoop_fold:
  "batchLoop e ext runId sid qhs rws (k * BATCH_SIZE) st
     = fold (\<lambda>j. processBatch e ext runId sid qhs rws (j * BATCH_SIZE)) [k..<totalBatches rws] st"
proof (induction "totalBatches rws - k" arbitrary: k st)
  case 0
  then have "\<not> k * BATCH_SIZE < length rws" by (simp add: more_batches)
  with 0 show ?case by (simp add: batchLoop.simps)
next
  case (Suc n)
  then have lt: "k < totalBatches rws" and n: "n = totalBatches rws - Suc k" by simp_all
  have "batchLoop e ext runId sid qhs rws (k * BATCH_SIZE) st
        = batchLoop e ext runId sid qhs rws (Suc k * BATCH_SIZE) (processBatch e ext runId sid qhs rws (k * BATCH_SIZE) st)"
    using lt by (subst batchLoop.simps) (simp add: more_batches add.commute)
  also have "\<dots> = fold (\<lambda>j. processBatch e ext runId sid qhs rws (j * BATCH_SIZE)) [Suc k..<totalBatches rws]
                      (processBatch e ext runId sid qhs rws (k * BATCH_SIZE) st)"
    by (rule Suc.hyps(1) [OF n])
  finally show ?case using lt by (simp add: upt_conv_Cons)
qed



lemma batch_number [simp]: "j * BATCH_SIZE div BATCH_SIZE = j"
  by (simp add: BATCH_SIZE_def)

lemma processBatch_segment:
  "\<exists>seg. sent (processBatch e ext runId sid qhs rws (j * BATCH_SIZE) st) = sent st @ seg
         \<and> batchSegment (Suc j) (totalBatches rws) seg"
  by (auto simp: processBatch_sent batchError_def list_all_iff
           split: option.splits llm_outcome.splits)

lemma fold_segments:
  "\<exists>segs. sent (fold (\<lambda>j. processBatch e ext runId sid qhs rws (j * BATCH_SIZE)) js st) = sent st @ concat segs
          \<and> length segs = length js
          \<and> (\<forall>n<length js. batchSegment (Suc (js ! n)) (totalBatches rws) (segs ! n))"
proof (induction js arbitrary: st)
  case Nil
  show ?case by simp
next
  case (Cons j js)
  obtain seg where seg: "sent (processBatch e ext runId sid qhs rws (j * BATCH_SIZE) st) = sent st @ seg"
    "batchSegment (Suc j) (totalBatches rws) seg"
    using processBatch_segment by blast
  obtain segs where segs:
    "sent (fold (\<lambda>j. processBatch e ext runId sid qhs rws (j * BATCH_SIZE)) js (processBatch e ext runId sid qhs rws (j * BATCH_SIZE) st))
       = sent (processBatch e ext runId sid qhs rws (j * BATCH_SIZE) st) @ concat segs"
    "length segs = length js"
    "\<forall>n<length js. batchSegment (Suc (js ! n)) (totalBatches rws) (segs ! n)"
    using Cons.IH by blast
  have "\<forall>n<length (j # js). batchSegment (Suc ((j # js) ! n)) (totalBatches rws) ((seg # segs) ! n)"
    using seg(2) segs(3) by (auto simp: nth_Cons split: nat.splits)
  then show ?case using seg(1) segs(1,2) by (intro exI [of _ "seg # segs"]) simp
qed

lemma fold_batchStarts:
  "filter isBatchStart (sent (fold (\<lambda>j. processBatch e ext runId sid qhs rws (j * BATCH_SIZE)) js st))
     = filter isBatchStart (sent st) @ map (\<lambda>j. BatchStart (Suc j) (totalBatches rws)) js"
proof (induction js arbitrary: st)
  case Nil
  show ?case by simp
next
  case (Cons j js)
  have "filter isBatchStart (sent (processBatch e ext runId sid qhs rws (j * BATCH_SIZE) st))
          = filter isBatchStart (sent st) @ [BatchStart (Suc j) (totalBatches rws)]"
  proof (cases "qualitativeOutcome e ext sid qhs rws (j * BATCH_SIZE) st")
    case None
    then show ?thesis by (simp add: processBatch_sent)
  next
    case (Some out)
    then show ?thesis
      by (cases out) (auto simp: processBatch_sent batchError_def filter_empty_conv)
  qed
  then show ?case by (simp add: Cons.IH)
qed


lemma qualitativeOutcome_real:
  "\<not> useMockLlm e \<Longrightarrow> callsCapability sid qhs rws (j * BATCH_SIZE) \<Longrightarrow>
   qualitativeOutcome e ext sid qhs rws (j * BATCH_SIZE) st = Some (generateObject ext (Suc j))"
  by (simp add: qualitativeOutcome_def callsCapability_def callCapability_def Let_def)




lemma finish_stream:
  "stream (finish e ext rws st) =
     sent st @ Stats (calculateStats (allRunCategorizations st))
       # sent (saveFinalResults ext (snd (summarize e ext (calculateStats (allRunCategorizations st)) (st\<lparr>sent := []\<rparr>))))
       @ [Complete (''Processing and statistics finished for '' @ string_of_nat (length rws) @ '' rows.'')]"
  by (auto simp: finish_def Let_def summarize_def saveFinalResults_def sendStreamMessage_def
           split: prod.splits text_outcome.splits upsert_outcome.splits if_splits)



lemma finish_tail:
  "\<exists>summaryEvent saveEvents.
     stream (finish e ext rws st) =
       sent st @ [Stats (calculateStats (allRunCategorizations st)), summaryEvent] @ saveEvents
         @ [Complete (''Processing and statistics finished for '' @ string_of_nat (length rws) @ '' rows.'')]
     \<and> (if calculateStats (allRunCategorizations st) \<noteq> [] \<and> \<not> useMockLlm e \<and> generateText ext \<in> range TextThrows
        then \<not> isSummary summaryEvent \<and> (\<exists>m. summaryEvent = Error m None)
        else isSummary summaryEvent)
     \<and> (if upsert ext = UpsertOk then saveEvents = [] else (\<exists>m. saveEvents = [Error m None]))"
  by (cases "generateText ext"; cases "upsert ext")
     (auto simp: finish_def Let_def summarize_def saveFinalResults_def sendStreamMessage_def)



lemma start_ok:
  "getSupabaseCredentials_process e = Inr () \<Longrightarrow>
   start e ext runId sid qhs rws
     = finish e ext rws (fold (\<lambda>j. processBatch e ext runId sid qhs rws (j * BATCH_SIZE)) [0..<totalBatches rws] initial)"
  using batchLoop_fold [of e ext runId sid qhs rws 0 initial] by (simp add: start_def)

text \<open>
  Claim C2, as amended.  In a run whose set-up succeeds, the stream is the messages of
  batch 1, then of batch 2, and so on up to batch \<open>ceil(N / BATCH_SIZE)\<close>, each made of its
  batchStart (index and total) followed by result messages only or by its one error
  message; then the stats message, then the summary message (or, when the call of the
  summarizer throws, an error message without batch index in its place), then an error
  message when saving failed, then the complete message.  The batchStart messages of the
  stream are exactly those of index 1 to total, in increasing order.
\<close>

theorem stream_order:
  assumes "getSupabaseCredentials_process e = Inr ()"
  shows "\<exists>segs ledger summaryEvent saveEvents.
           stream (start e ext runId sid qhs rws)
             = concat segs @ [Stats (calculateStats ledger), summaryEvent] @ saveEvents
               @ [Complete (''Processing and statistics finished for '' @ string_of_nat (length rws) @ '' rows.'')]
         \<and> length segs = totalBatches rws
         \<and> (\<forall>j<totalBatches rws. batchSegment (Suc j) (totalBatches rws) (segs ! j))
         \<and> (if calculateStats ledger \<noteq> [] \<and> \<not> useMockLlm e \<and> generateText ext \<in> range TextThrows
            then \<not> isSummary summaryEvent \<and> (\<exists>m. summaryEvent = Error m None)
            else isSummary summaryEvent)
         \<and> (if upsert ext = UpsertOk then saveEvents = [] else (\<exists>m. saveEvents = [Error m None]))
         \<and> filter isBatchStart (stream (start e ext runId sid qhs rws))
             = map (\<lambda>j. BatchStart (Suc j) (totalBatches rws)) [0..<totalBatches rws]
         \<and> totalBatches rws = (length rws + BATCH_SIZE - 1) div BATCH_SIZE"
proof -
  let ?st = "fold (\<lambda>j. processBatch e ext runId sid qhs rws (j * BATCH_SIZE)) [0..<totalBatches rws] initial"
  obtain segs where segs: "sent ?st = sent initial @ concat segs" "length segs = length [0..<totalBatches rws]"
    "\<forall>n<length [0..<totalBatches rws]. batchSegment (Suc ([0..<totalBatches rws] ! n)) (totalBatches rws) (segs ! n)"
    using fold_segments by blast
  obtain summaryEvent saveEvents where tail:
    "stream (finish e ext rws ?st) =
       sent ?st @ [Stats (calculateStats (allRunCategorizations ?st)), summaryEvent] @ saveEvents
         @ [Complete (''Processing and statistics finished for '' @ string_of_nat (length rws) @ '' rows.'')]"
    "if calculateStats (allRunCategorizations ?st) \<noteq> [] \<and> \<not> useMockLlm e \<and> generateText ext \<in> range TextThrows
        then \<not> isSummary summaryEvent \<and> (\<exists>m. summaryEvent = Error m None)
        else isSummary summaryEvent"
    "if upsert ext = UpsertOk then saveEvents = [] else (\<exists>m. saveEvents = [Error m None])"
    using finish_tail by blast
  have sent0: "sent initial = []" by (simp add: initial_def)
  have no1: "\<not> isBatchStart summaryEvent" using tail(2) by (cases summaryEvent) (auto split: if_splits)
  have no2: "filter isBatchStart saveEvents = []" using tail(3) by (auto split: if_splits)
  have starts: "filter isBatchStart (stream (start e ext runId sid qhs rws))
             = map (\<lambda>j. BatchStart (Suc j) (totalBatches rws)) [0..<totalBatches rws]"
    using no1 no2 by (simp add: start_ok [OF assms] tail(1) fold_batchStarts sent0)
  have str: "stream (start e ext runId sid qhs rws)
             = concat segs @ [Stats (calculateStats (allRunCategorizations ?st)), summaryEvent] @ saveEvents
               @ [Complete (''Processing and statistics finished for '' @ string_of_nat (length rws) @ '' rows.'')]"
    unfolding start_ok [OF assms] tail(1) segs(1) sent0 by simp
  have seg_ok: "\<forall>j<totalBatches rws. batchSegment (Suc j) (totalBatches rws) (segs ! j)"
    using segs(3) by simp
  show ?thesis
    apply (rule exI [of _ segs])
    apply (rule exI [of _ "allRunCategorizations ?st"])
    apply (rule exI [of _ summaryEvent])
    apply (rule exI [of _ saveEvents])
    using str segs(2) seg_ok tail(2,3) starts by (simp add: totalBatches_def)
qed



theorem stream_order_witness:
  "getSupabaseCredentials_process example_env = Inr ()
   \<and> (\<exists>segs ledger summaryEvent saveEvents.
           stream (start example_env failing_ext ''run-1'' ''Email'' survey_questions long_sheet)
             = concat segs @ [Stats (calculateStats ledger), summaryEvent] @ saveEvents
               @ [Complete (''Processing and statistics finished for '' @ string_of_nat (length long_sheet) @ '' rows.'')]
         \<and> length segs = totalBatches long_sheet
         \<and> (\<forall>j<totalBatches long_sheet. batchSegment (Suc j) (totalBatches long_sheet) (segs ! j))
         \<and> (if calculateStats ledger \<noteq> [] \<and> \<not> useMockLlm example_env \<and> generateText failing_ext \<in> range TextThrows
            then \<not> isSummary summaryEvent \<and> (\<exists>m. summaryEvent = Error m None)
            else isSummary summaryEvent)
         \<and> (if upsert failing_ext = UpsertOk then saveEvents = [] else (\<exists>m. saveEvents = [Error m None])))
   \<and> filter isBatchStart (stream (start example_env failing_ext ''run-1'' ''Email'' survey_questions long_sheet))
       = map (\<lambda>j. BatchStart (Suc j) (totalBatches long_sheet)) [0..<totalBatches long_sheet]
   \<and> totalBatches long_sheet = 3"
proof -
  have creds: "getSupabaseCredentials_process example_env = Inr ()" by code_simp
  have three: "totalBatches long_sheet = 3" by code_simp
  from stream_order [OF creds, of failing_ext "''run-1''" "''Email''" survey_questions long_sheet]
  obtain segs ledger summaryEvent saveEvents where
    "stream (start example_env failing_ext ''run-1'' ''Email'' survey_questions long_sheet)
             = concat segs @ [Stats (calculateStats ledger), summaryEvent] @ saveEvents
               @ [Complete (''Processing and statistics finished for '' @ string_of_nat (length long_sheet) @ '' rows.'')]"
    "length segs = totalBatches long_sheet"
    "\<forall>j<totalBatches long_sheet. batchSegment (Suc j) (totalBatches long_sheet) (segs ! j)"
    "if calculateStats ledger \<noteq> [] \<and> \<not> useMockLlm example_env \<and> generateText failing_ext \<in> range TextThrows
            then \<not> isSummary summaryEvent \<and> (\<exists>m. summaryEvent = Error m None)
            else isSummary summaryEvent"
    "if upsert failing_ext = UpsertOk then saveEvents = [] else (\<exists>m. saveEvents = [Error m None])"
    and starts: "filter isBatchStart (stream (start example_env failing_ext ''run-1'' ''Email'' survey_questions long_sheet))
       = map (\<lambda>j. BatchStart (Suc j) (totalBatches long_sheet)) [0..<totalBatches long_sheet]"
    by blast
  then have "\<exists>segs ledger summaryEvent saveEvents.
           stream (start example_env failing_ext ''run-1'' ''Email'' survey_questions long_sheet)
             = concat segs @ [Stats (calculateStats ledger), summaryEvent] @ saveEvents
               @ [Complete (''Processing and statistics finished for '' @ string_of_nat (length long_sheet) @ '' rows.'')]
         \<and> length segs = totalBatches long_sheet
         \<and> (\<forall>j<totalBatches long_sheet. batchSegment (Suc j) (totalBatches long_sheet) (segs ! j))
         \<and> (if calculateStats ledger \<noteq> [] \<and> \<not> useMockLlm example_env \<and> generateText failing_ext \<in> range TextThrows
            then \<not> isSummary summaryEvent \<and> (\<exists>m. summaryEvent = Error m None)
            else isSummary summaryEvent)
         \<and> (if upsert failing_ext = UpsertOk then saveEvents = [] else (\<exists>m. saveEvents = [Error m None]))"
    by blast
  with creds starts three show ?thesis by blast
qed

text \<open>Claim C2 as stated fails when the summarizer throws: the stream then has no summary message.\<close>

theorem stream_order_counterexample:
  "stream (start example_env summary_failing_ext ''run-1'' ''Email'' survey_questions [survey_row])
     = [BatchStart 1 1, Result (hd staff_positive),
        Stats [(''Rating'', [(''rating_n/a_5'', 1)]), (''Comments'', [(''staff_positive_detail_na'', 1)])],
        Error ''Failed to generate AI summary: timeout'' None,
        Complete ''Processing and statistics finished for 1 rows.'']
   \<and> filter isSummary (stream (start example_env summary_failing_ext ''run-1'' ''Email'' survey_questions [survey_row])) = []"
  by code_simp

lemma split_batches: "j < n \<Longrightarrow> [0..<n] = [0..<j] @ j # [Suc j..<n]"
  by (metis le_add1 le_add_same_cancel1 less_imp_add_positive upt_add_eq_append upt_conv_Cons)







section \<open>The statistics of the concrete scenario\<close>

text \<open>
  Claim C4, as amended.  For the single row with Email a@x.com, Rating 5 and Comments
  "great staff", the identifier Email, Rating categorical and Comments qualitative, and the
  capability answering topic staff, sentiment positive and no sub-category for Comments,
  the statistics handed to the store are Rating: rating_n/a_5 once, and Comments:
  staff_positive_detail_na once.  The combined key joins topic, sentiment and the
  sub-category with underscores, the sub-category replaced by the default "detail_na"
  when it is absent or empty.
\<close>

theorem scenario_stats:
  "(case process_POST example_env scenario_ext scenario_request of
      Inl message \<Rightarrow> None
    | Inr r \<Rightarrow> map_option (fst \<circ> snd) (finalRunData r))
     = Some [(''Rating'', [(''rating_n/a_5'', 1)]), (''Comments'', [(''staff_positive_detail_na'', 1)])]
   \<and> combinedCategoryOf c
       = topic c @ ''_'' @ sentiment c @ ''_''
         @ (case sub_category c of None \<Rightarrow> ''detail_na'' | Some sc \<Rightarrow> if sc = [] then ''detail_na'' else sc)"
proof
  show "(case process_POST example_env scenario_ext scenario_request of
      Inl message \<Rightarrow> None
    | Inr r \<Rightarrow> map_option (fst \<circ> snd) (finalRunData r))
     = Some [(''Rating'', [(''rating_n/a_5'', 1)]), (''Comments'', [(''staff_positive_detail_na'', 1)])]"
    by code_simp
  show "combinedCategoryOf c
       = topic c @ ''_'' @ sentiment c @ ''_''
         @ (case sub_category c of None \<Rightarrow> ''detail_na'' | Some sc \<Rightarrow> if sc = [] then ''detail_na'' else sc)"
    by (simp add: combinedCategoryOf_def SUB_CATEGORY_DEFAULT_def split: option.splits)
qed

text \<open>Claim C4 as stated, with the key staff_positive_no-detail, fails on the same run.\<close>

theorem scenario_stats_counterexample:
  "(case process_POST example_env scenario_ext scenario_request of
      Inl message \<Rightarrow> None
    | Inr r \<Rightarrow> map_option (fst \<circ> snd) (finalRunData r))
     \<noteq> Some [(''Rating'', [(''rating_n/a_5'', 1)]), (''Comments'', [(''staff_positive_no-detail'', 1)])]"
  by code_simp

section \<open>The categorical pass\<close>











section \<open>The context sets and the ledger\<close>


lemma set_Set_add: "set (Set_add x xs) = insert x (set xs)"
  by (auto simp: Set_add_def)

lemma addToContext_mono:
  "set (fst ctx) \<subseteq> set (fst (addToContext c ctx)) \<and> set (snd ctx) \<subseteq> set (snd (addToContext c ctx))"
  by (auto simp: addToContext_def Let_def set_Set_add split: option.splits)

lemma fold_addToContext_mono:
  "set (fst ctx) \<subseteq> set (fst (fold addToContext cs ctx)) \<and> set (snd ctx) \<subseteq> set (snd (fold addToContext cs ctx))"
proof (induction cs arbitrary: ctx)
  case Nil
  show ?case by simp
next
  case (Cons c cs)
  from Cons.IH [of "addToContext c ctx"] addToContext_mono [of ctx c] show ?case by auto
qed

lemma addToContext_adds:
  "(categorizedAnswer.topic c \<noteq> ''n/a'' \<longrightarrow> categorizedAnswer.topic c \<in> set (fst (addToContext c ctx)))
   \<and> (\<forall>sc. categorizedAnswer.sub_category c = Some sc \<longrightarrow> sc \<noteq> [] \<longrightarrow> sc \<in> set (snd (addToContext c ctx)))"
  by (auto simp: addToContext_def Let_def set_Set_add split: option.splits)

lemma fold_addToContext_adds:
  assumes "c \<in> set cs"
  shows "(categorizedAnswer.topic c \<noteq> ''n/a'' \<longrightarrow> categorizedAnswer.topic c \<in> set (fst (fold addToContext cs ctx)))
   \<and> (\<forall>sc. categorizedAnswer.sub_category c = Some sc \<longrightarrow> sc \<noteq> [] \<longrightarrow> sc \<in> set (snd (fold addToContext cs ctx)))"
  using assms
proof (induction cs arbitrary: ctx)
  case Nil
  then show ?case by simp
next
  case (Cons a cs)
  show ?case
  proof (cases "c = a")
    case True
    from addToContext_adds [of c ctx] fold_addToContext_mono [of "addToContext c ctx" cs]
    show ?thesis unfolding True [symmetric] by (simp only: fold_simps) blast
  next
    case False
    with Cons.prems have "c \<in> set cs" by simp
    from Cons.IH [OF this] show ?thesis by simp
  qed
qed

lemma normalized_sub_category_nonempty:
  "categorizedAnswer.sub_category (normalizeCategorization c) \<noteq> Some []"
  by (simp add: normalizeCategorization_def Let_def split: option.splits)

lemma processBatch_context_mono:
  "set (identifiedTopics st) \<subseteq> set (identifiedTopics (processBatch e ext runId sid qhs rws i st))
   \<and> set (identifiedSubCategories st) \<subseteq> set (identifiedSubCategories (processBatch e ext runId sid qhs rws i st))"
proof -
  let ?st' = "processBatch e ext runId sid qhs rws i st"
  show ?thesis
  proof (cases "qualitativeOutcome e ext sid qhs rws i st")
    case None
    with processBatch_context [of e ext runId sid qhs rws i st] show ?thesis by simp
  next
    case (Some out)
    show ?thesis
    proof (cases out)
      case (LlmObject res)
      with Some processBatch_context [of e ext runId sid qhs rws i st]
      have "(identifiedTopics ?st', identifiedSubCategories ?st')
            = updateContext (map normalizeStudent res) (identifiedTopics st, identifiedSubCategories st)"
        by simp
      then have "identifiedTopics ?st' = fst (updateContext (map normalizeStudent res) (identifiedTopics st, identifiedSubCategories st))"
        and "identifiedSubCategories ?st' = snd (updateContext (map normalizeStudent res) (identifiedTopics st, identifiedSubCategories st))"
        by (metis fst_conv, metis snd_conv)
      then show ?thesis
        using fold_addToContext_mono [of "(identifiedTopics st, identifiedSubCategories st)"]
        by (simp add: updateContext_def)
    qed (use Some processBatch_context [of e ext runId sid qhs rws i st] in simp_all)
  qed
qed

lemma fold_context_mono:
  "set (identifiedTopics st) \<subseteq> set (identifiedTopics (fold (\<lambda>j. processBatch e ext runId sid qhs rws (j * BATCH_SIZE)) js st))
   \<and> set (identifiedSubCategories st) \<subseteq> set (identifiedSubCategories (fold (\<lambda>j. processBatch e ext runId sid qhs rws (j * BATCH_SIZE)) js st))"
proof (induction js arbitrary: st)
  case Nil
  show ?case by simp
next
  case (Cons j js)
  from Cons.IH [of "processBatch e ext runId sid qhs rws (j * BATCH_SIZE) st"]
       processBatch_context_mono [of st e ext runId sid qhs rws "j * BATCH_SIZE"]
  show ?case by (simp only: fold_simps) blast
qed

lemma batchLoop_context_mono:
  "set (identifiedTopics st) \<subseteq> set (identifiedTopics (batchLoop e ext runId sid qhs rws i st))
   \<and> set (identifiedSubCategories st) \<subseteq> set (identifiedSubCategories (batchLoop e ext runId sid qhs rws i st))"
proof (induction e ext runId sid qhs rws i st rule: batchLoop.induct)
  case (1 e ext runId sid qhs rws i st)
  show ?case
  proof (cases "i < length rws")
    case True
    from "1.IH" [OF True] processBatch_context_mono [of st e ext runId sid qhs rws i]
    show ?thesis by (subst (1 2) batchLoop.simps) (simp only: True if_True, blast)
  next
    case False
    then show ?thesis by (subst (1 2) batchLoop.simps) simp
  qed
qed


lemma processBatch_adds_context:
  assumes "callsCapability sid qhs rws (j * BATCH_SIZE)" and "\<not> useMockLlm e"
    and "generateObject ext (Suc j) = LlmObject res"
    and "studentResult \<in> set res" and "cat \<in> set (categorizations studentResult)"
  shows "(categorizedAnswer.topic (normalizeCategorization cat) \<noteq> ''n/a'' \<longrightarrow>
            categorizedAnswer.topic (normalizeCategorization cat)
              \<in> set (identifiedTopics (processBatch e ext runId sid qhs rws (j * BATCH_SIZE) st)))
       \<and> (\<forall>sc. categorizedAnswer.sub_category (normalizeCategorization cat) = Some sc \<longrightarrow>
             sc \<in> set (identifiedSubCategories (processBatch e ext runId sid qhs rws (j * BATCH_SIZE) st)))"
proof -
  let ?st' = "processBatch e ext runId sid qhs rws (j * BATCH_SIZE) st"
  let ?ctx = "updateContext (map normalizeStudent res) (identifiedTopics st, identifiedSubCategories st)"
  have "(identifiedTopics ?st', identifiedSubCategories ?st') = ?ctx"
    using processBatch_context [of e ext runId sid qhs rws "j * BATCH_SIZE" st]
    by (simp add: qualitativeOutcome_real [OF assms(2,1)] assms(3))
  then have ctx: "identifiedTopics ?st' = fst ?ctx" "identifiedSubCategories ?st' = snd ?ctx"
    by (metis fst_conv, metis snd_conv)
  have "normalizeCategorization cat \<in> set (concat (map categorizations (map normalizeStudent res)))"
    using assms(4,5) by (force simp: normalizeStudent_def)
  from fold_addToContext_adds [OF this, of "(identifiedTopics st, identifiedSubCategories st)"]
    normalized_sub_category_nonempty [of cat]
  show ?thesis unfolding ctx updateContext_def by metis
qed

text \<open>
  Claim C9, as amended.  Let the capability be called for batch \<open>j + 1\<close> and answer.  Every
  normalized topic of the answer other than "n/a", and every normalized sub-category of
  it, is in the context sets in which every later batch starts and in which the loop ends
  (\<open>k\<close> batches done, \<open>j < k\<close>).  No batch, in whatever state it starts, removes a topic or a
  sub-category from the sets.
\<close>

theorem context_accumulates:
  assumes "j < k" and "k \<le> totalBatches rws"
    and "callsCapability sid qhs rws (j * BATCH_SIZE)" and "\<not> useMockLlm e"
    and "generateObject ext (Suc j) = LlmObject res"
    and "studentResult \<in> set res" and "cat \<in> set (categorizations studentResult)"
    and "later = fold (\<lambda>n. processBatch e ext runId sid qhs rws (n * BATCH_SIZE)) [0..<k] initial"
  shows "(categorizedAnswer.topic (normalizeCategorization cat) \<noteq> ''n/a'' \<longrightarrow>
            categorizedAnswer.topic (normalizeCategorization cat) \<in> set (identifiedTopics later))
       \<and> (\<forall>sc. categorizedAnswer.sub_category (normalizeCategorization cat) = Some sc \<longrightarrow>
             sc \<in> set (identifiedSubCategories later))
       \<and> batchLoop e ext runId sid qhs rws 0 initial
           = fold (\<lambda>n. processBatch e ext runId sid qhs rws (n * BATCH_SIZE)) [0..<totalBatches rws] initial
       \<and> set (identifiedTopics st) \<subseteq> set (identifiedTopics (processBatch e ext runId sid qhs rws i st))
       \<and> set (identifiedSubCategories st) \<subseteq> set (identifiedSubCategories (processBatch e ext runId sid qhs rws i st))"
proof -
  let ?f = "\<lambda>n. processBatch e ext runId sid qhs rws (n * BATCH_SIZE)"
  let ?st1 = "processBatch e ext runId sid qhs rws (j * BATCH_SIZE) (fold ?f [0..<j] initial)"
  have later: "later = fold ?f [Suc j..<k] ?st1"
    unfolding assms(8) by (simp add: split_batches [OF assms(1)])
  note added = processBatch_adds_context [OF assms(3,4,5,6,7), of runId "fold ?f [0..<j] initial"]
  note mono = fold_context_mono [of ?st1 e ext runId sid qhs rws "[Suc j..<k]"]
  have loop: "batchLoop e ext runId sid qhs rws 0 initial = fold ?f [0..<totalBatches rws] initial"
    using batchLoop_fold [of e ext runId sid qhs rws 0 initial] by simp
  from added mono processBatch_context_mono [of st e ext runId sid qhs rws i] loop
  show ?thesis unfolding later by blast
qed

theorem context_accumulates_witness:
  "(0::nat) < 1 \<and> 1 \<le> totalBatches [survey_row]
   \<and> callsCapability ''Email'' survey_questions [survey_row] (0 * BATCH_SIZE)
   \<and> \<not> useMockLlm example_env
   \<and> generateObject noisy_ext (Suc 0) = LlmObject noisy_answer
   \<and> hd noisy_answer \<in> set noisy_answer
   \<and> staff_cat \<in> set (categorizations (hd noisy_answer))
   \<and> categorizedAnswer.topic (normalizeCategorization staff_cat) = ''staff''
   \<and> categorizedAnswer.sub_category (normalizeCategorization staff_cat) = Some ''helpful_support_staff''
   \<and> ''staff'' \<in> set (identifiedTopics
         (fold (\<lambda>n. processBatch example_env noisy_ext ''run-1'' ''Email'' survey_questions [survey_row] (n * BATCH_SIZE))
               [0..<1] initial))
   \<and> ''helpful_support_staff'' \<in> set (identifiedSubCategories
         (fold (\<lambda>n. processBatch example_env noisy_ext ''run-1'' ''Email'' survey_questions [survey_row] (n * BATCH_SIZE))
               [0..<1] initial))"
proof -
  have h1: "(0::nat) < 1" by simp
  have h2: "1 \<le> totalBatches [survey_row]" by code_simp
  have h3: "callsCapability ''Email'' survey_questions [survey_row] (0 * BATCH_SIZE)" by code_simp
  have h4: "\<not> useMockLlm example_env" by code_simp
  have h5: "generateObject noisy_ext (Suc 0) = LlmObject noisy_answer" by code_simp
  have h6: "hd noisy_answer \<in> set noisy_answer" by code_simp
  have h7: "staff_cat \<in> set (categorizations (hd noisy_answer))" by code_simp
  have t: "categorizedAnswer.topic (normalizeCategorization staff_cat) = ''staff''" by code_simp
  have s: "categorizedAnswer.sub_category (normalizeCategorization staff_cat) = Some ''helpful_support_staff''" by code_simp
  have ne: "''staff'' \<noteq> ''n/a''" by simp
  from context_accumulates [OF h1 h2 h3 h4 h5 h6 h7 refl, where runId = "''run-1''" and st = initial and i = 0]
  have "''staff'' \<in> set (identifiedTopics
         (fold (\<lambda>n. processBatch example_env noisy_ext ''run-1'' ''Email'' survey_questions [survey_row] (n * BATCH_SIZE))
               [0..<1] initial))"
    and "''helpful_support_staff'' \<in> set (identifiedSubCategories
         (fold (\<lambda>n. processBatch example_env noisy_ext ''run-1'' ''Email'' survey_questions [survey_row] (n * BATCH_SIZE))
               [0..<1] initial))"
    unfolding t s using ne by blast+
  with h1 h2 h3 h4 h5 h6 h7 t s show ?thesis by blast
qed

text \<open>Claim C9 as stated fails for the topic "n/a": the qualitative pass produces it and
  line 261 keeps it out of the set.\<close>

theorem context_accumulates_counterexample:
  "stream (start example_env na_ext ''run-1'' ''Email'' survey_questions [survey_row]) ! 1
     = Result \<lparr>respondentId = ''a@x.com'',
               categorizations = [\<lparr>question = ''Comments'', categorizedAnswer.topic = ''n/a'',
                                   categorizedAnswer.sentiment = ''neutral'',
                                   categorizedAnswer.sub_category = None\<rparr>]\<rparr>
   \<and> identifiedTopics (batchLoop example_env na_ext ''run-1'' ''Email'' survey_questions [survey_row] 0 initial) = []"
  by code_simp







end
